theory Spec2Isabelle
  imports Complex_Main
begin

section \<open>JavaScript strings\<close>

text \<open>
  Strings are lists of 8-bit characters. The model covers the ASCII range: \<open>lower\<close> maps
  \<open>A\<close>..\<open>Z\<close> to \<open>a\<close>..\<open>z\<close> and leaves every other character alone, and \<open>is_space\<close> holds
  of the ASCII white space that \<open>String.prototype.trim\<close> removes (tab, line feed, vertical
  tab, form feed, carriage return, space).
\<close>

definition lower :: "char \<Rightarrow> char" where
  "lower c = (if 65 \<le> (of_char c :: nat) \<and> (of_char c :: nat) \<le> 90
              then char_of (of_char c + (32::nat)) else c)"

definition toLowerCase :: "string \<Rightarrow> string" where
  "toLowerCase s = map lower s"

definition is_space :: "char \<Rightarrow> bool" where
  "is_space c = ((of_char c :: nat) \<in> {9, 10, 11, 12, 13, 32})"

definition trim :: "string \<Rightarrow> string" where
  "trim s = rev (dropWhile is_space (rev (dropWhile is_space s)))"

text \<open>
  \<open>s.replace(/^(p1|p2|...):/i, "")\<close>: the first alternative that matches the start of
  \<open>s\<close>, ignoring case, is removed; without a match \<open>s\<close> is returned as it is. The
  alternatives are given in lower case, colon included.
\<close>

definition matches_at_start :: "string \<Rightarrow> string \<Rightarrow> bool" where
  "matches_at_start p s = (toLowerCase (take (length p) s) = p)"

fun replace_prefix :: "string list \<Rightarrow> string \<Rightarrow> string" where
  "replace_prefix [] s = s"
| "replace_prefix (p # ps) s =
     (if matches_at_start p s then drop (length p) s else replace_prefix ps s)"



section \<open>policy.ts: allow-list matching\<close>

definition platform_prefixes :: "string list" where
  "platform_prefixes = [''feishu:'', ''lark:'']"

definition kind_prefixes :: "string list" where
  "kind_prefixes = [''user:'', ''open:'', ''chat:'']"

definition normalizeFeishuAllowEntry :: "string \<Rightarrow> string" where
  "normalizeFeishuAllowEntry raw =
     replace_prefix kind_prefixes
       (replace_prefix platform_prefixes (toLowerCase (trim raw)))"

text \<open>
  \<open>values ?? []\<close>, every entry normalised, empty results filtered out. The entries are
  strings: the configuration schema admits nothing else, and \<open>String(value)\<close> leaves a
  string as it is.
\<close>

definition normalizeFeishuAllowlist :: "string list option \<Rightarrow> string list" where
  "normalizeFeishuAllowlist values =
     filter (\<lambda>e. e \<noteq> [])
       (map normalizeFeishuAllowEntry (case values of None \<Rightarrow> [] | Some vs \<Rightarrow> vs))"

datatype match_source = MS_wildcard | MS_id | MS_name

record AllowlistMatch =
  allowed :: bool
  matchKey :: "string option"
  matchSource :: "match_source option"

definition not_allowed :: AllowlistMatch where
  "not_allowed = \<lparr>allowed = False, matchKey = None, matchSource = None\<rparr>"

definition resolveFeishuAllowlistMatch ::
  "string list option \<Rightarrow> string \<Rightarrow> string option \<Rightarrow> string option \<Rightarrow> AllowlistMatch" where
  "resolveFeishuAllowlistMatch allowFromRaw senderId senderUserId senderName =
     (let allowFrom = normalizeFeishuAllowlist allowFromRaw in
      if allowFrom = [] then not_allowed
      else if ''*'' \<in> set allowFrom
        then \<lparr>allowed = True, matchKey = Some ''*'', matchSource = Some MS_wildcard\<rparr>
      else
        let candidates =
              filter (\<lambda>e. e \<noteq> [])
                (map normalizeFeishuAllowEntry
                   [senderId, (case senderUserId of None \<Rightarrow> [] | Some u \<Rightarrow> u)])
        in case find (\<lambda>c. c \<in> set allowFrom) candidates of
             Some c \<Rightarrow> \<lparr>allowed = True, matchKey = Some c, matchSource = Some MS_id\<rparr>
           | None \<Rightarrow>
               let name = (case senderName of
                             None \<Rightarrow> []
                           | Some n \<Rightarrow> if n = [] then [] else normalizeFeishuAllowEntry n)
               in if name \<noteq> [] \<and> name \<in> set allowFrom
                  then \<lparr>allowed = True, matchKey = Some name, matchSource = Some MS_name\<rparr>
                  else not_allowed)"

section \<open>policy.ts: group admission\<close>

datatype GroupPolicy = GP_open | GP_disabled | GP_allowlist

text \<open>
  \<open>resolveNestedAllowlistDecision\<close> is imported from the package \<open>clawdbot/plugin-sdk\<close>,
  which is not part of this repository. The functions that call it take it as the
  parameter \<open>nested\<close>, applied to \<open>outerConfigured\<close>, \<open>outerMatched\<close>, \<open>innerConfigured\<close>,
  \<open>innerMatched\<close> in this order, and what is proved for every \<open>nested\<close> holds whatever
  the package does.

  \<open>sdk_nested\<close> is the helper as the package defines it: two gates in a row. An outer
  list that is not configured admits; a configured outer list that did not match
  rejects; then an inner list that is not configured admits, and a configured one
  decides. The repository's own tests of \<open>resolveFeishuChatMatch\<close> and
  \<open>resolveFeishuGroupAllow\<close> fix four of its values (\<open>sdk_nested_tests\<close> below).
\<close>

type_synonym nested_decision = "bool \<Rightarrow> bool \<Rightarrow> bool \<Rightarrow> bool \<Rightarrow> bool"

definition sdk_nested :: nested_decision where
  "sdk_nested outerConfigured outerMatched innerConfigured innerMatched =
     (if \<not> outerConfigured then True
      else if \<not> outerMatched then False
      else if \<not> innerConfigured then True
      else innerMatched)"

record GroupAllow =
  g_allowed :: bool
  outerMatch :: AllowlistMatch
  innerMatch :: AllowlistMatch

definition just_allowed :: AllowlistMatch where
  "just_allowed = \<lparr>allowed = True, matchKey = None, matchSource = None\<rparr>"

definition resolveFeishuGroupAllow ::
  "nested_decision \<Rightarrow> GroupPolicy \<Rightarrow> string list option \<Rightarrow> string list option \<Rightarrow>
     string \<Rightarrow> string option \<Rightarrow> string option \<Rightarrow> GroupAllow" where
  "resolveFeishuGroupAllow nested groupPolicy outerAllowFrom innerAllowFrom
       senderId senderUserId senderName =
     (if groupPolicy = GP_disabled
        then \<lparr>g_allowed = False, outerMatch = not_allowed, innerMatch = not_allowed\<rparr>
      else if groupPolicy = GP_open
        then \<lparr>g_allowed = True, outerMatch = just_allowed, innerMatch = just_allowed\<rparr>
      else
        let outerAllow = normalizeFeishuAllowlist outerAllowFrom;
            innerAllow = normalizeFeishuAllowlist innerAllowFrom
        in if outerAllow = [] \<and> innerAllow = []
           then \<lparr>g_allowed = False, outerMatch = not_allowed, innerMatch = not_allowed\<rparr>
           else
             let om = resolveFeishuAllowlistMatch outerAllowFrom senderId senderUserId senderName;
                 im = resolveFeishuAllowlistMatch innerAllowFrom senderId senderUserId senderName
             in \<lparr>g_allowed =
                    nested (outerAllow \<noteq> [] \<or> innerAllow \<noteq> [])
                           (if outerAllow \<noteq> [] then allowed om else True)
                           (innerAllow \<noteq> [])
                           (allowed im),
                  outerMatch = om, innerMatch = im\<rparr>)"

section \<open>types.ts: payloads, accounts and configuration\<close>

record FeishuSenderId =
  open_id :: "string option"
  user_id :: "string option"

record FeishuMention =
  mention_id :: "FeishuSenderId option"

record FeishuMessage =
  message_id :: "string option"
  create_time :: "string option"
  chat_id :: "string option"
  chatId :: "string option"
  chat_type :: "string option"
  chatType :: "string option"
  content :: "string option"
  mentions :: "FeishuMention list option"

text \<open>
  A sender carries its ids under \<open>sender_id\<close>; "some payloads flatten sender_id", and then
  the ids are fields of the sender itself (\<open>s_open_id\<close>, \<open>s_user_id\<close>).
\<close>

record FeishuSender =
  sender_id :: "FeishuSenderId option"
  sender_type :: "string option"
  s_open_id :: "string option"
  s_user_id :: "string option"

record FeishuEventHeader =
  h_create_time :: "string option"

record FeishuEvent =
  message :: "FeishuMessage option"
  msg :: "FeishuMessage option"
  sender :: "FeishuSender option"

text \<open>
  The payload has its event under \<open>event\<close>, or flattened: \<open>flat\<close> is the payload itself
  read as an event (its own \<open>message\<close>, \<open>msg\<close> and \<open>sender\<close> fields).
\<close>

record FeishuMessageEventPayload =
  header :: "FeishuEventHeader option"
  event :: "FeishuEvent option"
  flat :: FeishuEvent

record FeishuChatConfig =
  requireMention :: "bool option"
  enabled :: "bool option"
  c_allowFrom :: "string list option"
  systemPrompt :: "string option"

datatype DmPolicy = DM_pairing | DM_allowlist | DM_open | DM_disabled

record FeishuAccountConfig =
  dmPolicy :: "DmPolicy option"
  allowFrom :: "string list option"
  groupAllowFrom :: "string list option"
  groupPolicy :: "GroupPolicy option"
  chats :: "(string \<times> FeishuChatConfig) list option"

record ResolvedFeishuAccount =
  accountId :: string
  botOpenId :: "string option"
  config :: FeishuAccountConfig

text \<open>The two fields of \<open>ClawdbotConfig\<close> that the handler reads.\<close>

record ClawdbotConfig =
  defaults_groupPolicy :: "GroupPolicy option"
  commands_useAccessGroups :: "bool option"

section \<open>The collaborators of the message handler\<close>

text \<open>
  The handler calls the agent runtime (\<open>core\<close>), helpers of the package
  \<open>clawdbot/plugin-sdk\<close>, \<open>JSON.parse\<close> and \<open>Date.now\<close>. None of them is part of this
  repository; the model takes them as the fields of one record, and the theorems about
  the handler hold for every value of it unless they say otherwise.
  \<^item> \<open>json_text raw\<close> is the \<open>text\<close> field of \<open>JSON.parse(raw)\<close> when \<open>raw\<close> parses to an
    object whose \<open>text\<close> is a string, and \<open>None\<close> otherwise;
  \<open>now\<close> is \<open>Date.now()\<close>;
  \<^item> \<open>readAllowFromStore\<close> is the list the pairing store returns (\<open>[]\<close> when it fails);
  \<^item> \<open>entryMatch chats chatId\<close> is the \<open>entry\<close> and the \<open>wildcardEntry\<close> that
    \<open>resolveChannelEntryMatchWithFallback\<close> finds for the key candidates of \<open>chatId\<close>;
  \<^item> \<open>nested\<close> is \<open>resolveNestedAllowlistDecision\<close>;
  \<^item> \<open>resolveControlCommandGate useAccessGroups authorizers allowTextCommands
    hasControlCommand\<close> returns \<open>(commandAuthorized, shouldBlock)\<close>;
  \<^item> \<open>upsertPairingRequest store id userId\<close> returns \<open>(code, created)\<close> and the new store;
  \<^item> \<open>sendTextFeishu_throws\<close> tells whether sending the pairing reply fails;
  \<^item> \<open>matchesMentionPatterns body\<close> is the result of the configured mention patterns
    (\<open>False\<close> when there is none);
  \<^item> \<open>mentionGating isGroup requireMention wasMentioned allowTextCommands
    hasControlCommand commandAuthorized\<close> is \<open>shouldSkip\<close> of
    \<open>resolveMentionGatingWithBypass\<close>, called with \<open>canDetectMention = true\<close>.
\<close>

record 'st collaborators =
  json_text :: "string \<Rightarrow> string option"
  now :: int
  readAllowFromStore :: "string list"
  entryMatch :: "(string \<times> FeishuChatConfig) list \<Rightarrow> string
                   \<Rightarrow> FeishuChatConfig option \<times> FeishuChatConfig option"
  nested :: nested_decision
  shouldHandleTextCommands :: bool
  hasControlCommand :: "string \<Rightarrow> bool"
  resolveControlCommandGate :: "bool \<Rightarrow> (bool \<times> bool) list \<Rightarrow> bool \<Rightarrow> bool \<Rightarrow> bool \<times> bool"
  upsertPairingRequest :: "'st \<Rightarrow> string \<Rightarrow> string option \<Rightarrow> (string \<times> bool) \<times> 'st"
  sendTextFeishu_throws :: bool
  matchesMentionPatterns :: "string \<Rightarrow> bool"
  mentionGating :: "bool \<Rightarrow> bool \<Rightarrow> bool \<Rightarrow> bool \<Rightarrow> bool \<Rightarrow> bool \<Rightarrow> bool"

section \<open>policy.ts: chat entries\<close>

record FeishuChatMatch =
  chatConfig :: "FeishuChatConfig option"
  wildcardConfig :: "FeishuChatConfig option"
  c_allowed :: bool
  allowlistConfigured :: bool

definition resolveFeishuChatMatch ::
  "'st collaborators \<Rightarrow> (string \<times> FeishuChatConfig) list option \<Rightarrow> string \<Rightarrow> FeishuChatMatch" where
  "resolveFeishuChatMatch rt chatsOpt cid =
     (let chs = (case chatsOpt of None \<Rightarrow> [] | Some c \<Rightarrow> c);
          configured = (chs \<noteq> []);
          m = entryMatch rt chs cid
      in \<lparr>chatConfig = fst m, wildcardConfig = snd m,
          c_allowed = nested rt configured (fst m \<noteq> None) False False,
          allowlistConfigured = configured\<rparr>)"

definition resolveFeishuRequireMention ::
  "FeishuChatConfig option \<Rightarrow> FeishuChatConfig option \<Rightarrow> bool" where
  "resolveFeishuRequireMention cc wc =
     (case (case cc of None \<Rightarrow> None | Some c \<Rightarrow> requireMention c) of
        Some b \<Rightarrow> b
      | None \<Rightarrow> (case (case wc of None \<Rightarrow> None | Some c \<Rightarrow> requireMention c) of
                  Some b \<Rightarrow> b
                | None \<Rightarrow> True))"

section \<open>The message handler: reading the event\<close>

text \<open>A string that JavaScript takes as true: present and not empty.\<close>

definition truthy :: "string option \<Rightarrow> string option" where
  "truthy so = (case so of None \<Rightarrow> None | Some s \<Rightarrow> if s = [] then None else Some s)"

definition unwrapFeishuEvent ::
  "FeishuMessageEventPayload \<Rightarrow> FeishuEvent \<times> FeishuMessage option \<times> FeishuSender option" where
  "unwrapFeishuEvent payload =
     (let evt = (case event payload of Some e \<Rightarrow> e | None \<Rightarrow> flat payload)
      in (evt, (case message evt of Some m \<Rightarrow> Some m | None \<Rightarrow> msg evt), sender evt))"

record SenderIds =
  senderId :: string
  senderOpenId :: "string option"
  senderUserId :: "string option"

text \<open>The raw \<open>open_id\<close> and \<open>user_id\<close> that \<open>resolveSenderIds\<close> reads.\<close>

definition raw_sender_ids :: "FeishuMessageEventPayload \<Rightarrow> string option \<times> string option" where
  "raw_sender_ids payload =
     (case snd (snd (unwrapFeishuEvent payload)) of
        None \<Rightarrow> (None, None)
      | Some s \<Rightarrow> (case sender_id s of
                    Some i \<Rightarrow> (open_id i, user_id i)
                  | None \<Rightarrow> (s_open_id s, s_user_id s)))"

definition resolveSenderIds :: "FeishuMessageEventPayload \<Rightarrow> SenderIds option" where
  "resolveSenderIds payload =
     (let openId = map_option trim (fst (raw_sender_ids payload));
          userId = map_option trim (snd (raw_sender_ids payload))
      in case (case truthy openId of Some i \<Rightarrow> Some i | None \<Rightarrow> truthy userId) of
           None \<Rightarrow> None
         | Some i \<Rightarrow> Some \<lparr>senderId = i, senderOpenId = truthy openId,
                            senderUserId = truthy userId\<rparr>)"

definition parseMessageContent :: "'st collaborators \<Rightarrow> FeishuMessage \<Rightarrow> string option" where
  "parseMessageContent rt m =
     (case content m of
        None \<Rightarrow> None
      | Some c \<Rightarrow>
          let raw = trim c
          in if raw = [] then None
             else (case json_text rt raw of
                     Some t \<Rightarrow> if trim t \<noteq> [] then Some (trim t) else Some raw
                   | None \<Rightarrow> Some raw))"

definition wasMentionedByFeishu :: "FeishuMessage \<Rightarrow> string option \<Rightarrow> bool" where
  "wasMentionedByFeishu m botId =
     (let ms = (case mentions m of None \<Rightarrow> [] | Some l \<Rightarrow> l)
      in if ms = [] then False
         else (case truthy botId of
                 None \<Rightarrow> True
               | Some b \<Rightarrow>
                   if trim b = [] then True
                   else list_ex (\<lambda>mn. (case mention_id mn of
                                          None \<Rightarrow> False
                                        | Some i \<Rightarrow> map_option trim (open_id i) = Some (trim b))) ms))"

section \<open>The message handler: time stamps\<close>

text \<open>
  \<open>Number.parseInt(raw, 10)\<close>: leading white space is skipped, a sign is read, and the
  longest run of decimal digits that follows is the value; \<open>NaN\<close> when there is no digit.
  The value is kept as a mathematical integer. A JavaScript number is a double, which
  holds every integer below \<open>2^53\<close> exactly; the theorems about parsed values are stated
  for that range, where the model and the double agree (beyond it \<open>parseInt\<close> rounds, and
  returns \<open>Infinity\<close> for runs of more than 308 digits).
\<close>

datatype jsnum = NaN | Num int

definition is_digit :: "char \<Rightarrow> bool" where
  "is_digit c = (48 \<le> (of_char c :: nat) \<and> (of_char c :: nat) \<le> 57)"

definition digits_value :: "string \<Rightarrow> int" where
  "digits_value ds = foldl (\<lambda>acc c. acc * 10 + (of_char c - 48)) 0 ds"

definition parseInt10 :: "string \<Rightarrow> jsnum" where
  "parseInt10 s =
     (let t = dropWhile is_space s;
          neg = (case t of c # _ \<Rightarrow> c = CHR ''-'' | [] \<Rightarrow> False);
          u = (case t of c # r \<Rightarrow> if c = CHR ''-'' \<or> c = CHR ''+'' then r else t | [] \<Rightarrow> t);
          ds = takeWhile is_digit u
      in if ds = [] then NaN
         else Num (if neg then - digits_value ds else digits_value ds))"

definition parseTimestamp :: "string option \<Rightarrow> int option" where
  "parseTimestamp raw =
     (case truthy raw of
        None \<Rightarrow> None
      | Some s \<Rightarrow> (case parseInt10 s of
                    NaN \<Rightarrow> None
                  | Num parsed \<Rightarrow> if parsed < 10 ^ 11 then Some (parsed * 1000) else Some parsed))"

text \<open>
  \<open>parseTimestamp(message.create_time) ?? parseTimestamp(payload.header?.create_time) ??
  Date.now()\<close>
\<close>

definition header_create_time :: "FeishuMessageEventPayload \<Rightarrow> string option" where
  "header_create_time payload = (case header payload of None \<Rightarrow> None | Some h \<Rightarrow> h_create_time h)"

definition eventTimestamp ::
  "'st collaborators \<Rightarrow> FeishuMessageEventPayload \<Rightarrow> FeishuMessage \<Rightarrow> int" where
  "eventTimestamp rt payload m =
     (case parseTimestamp (create_time m) of
        Some t \<Rightarrow> t
      | None \<Rightarrow>
          (case parseTimestamp (header_create_time payload) of
             Some t \<Rightarrow> t
           | None \<Rightarrow> now rt))"

section \<open>The message handler: admission\<close>

text \<open>
  What the handler does to the outside, in the order of the source: the status sink and
  the activity record of an inbound event, the log line of a drop, the call of
  \<open>upsertPairingRequest\<close>, the pairing reply sent with \<open>sendTextFeishu\<close> (chat, sender,
  code) and the error logged when that send throws, and the hand-over of the inbound
  context to the agent runtime. Everything the source does after the mention gate
  (routing, the session record, the reply dispatcher) is the one effect \<open>Forward\<close>.
\<close>

datatype drop_reason =
    ChatNotAllowlisted
  | ChatDisabled
  | ControlCommandUnauthorized
  | GroupSenderPolicy GroupPolicy
  | DmPolicyDisabled
  | DmSenderPolicy DmPolicy
  | NoMention

record InboundContext =
  ctx_From :: string
  ctx_To :: string
  ctx_ChatType :: string
  ctx_RawBody :: string
  ctx_SenderId :: string
  ctx_Timestamp :: int
  ctx_WasMentioned :: "bool option"
  ctx_CommandAuthorized :: bool
  ctx_GroupSystemPrompt :: "string option"

datatype effect =
    StatusInbound int
  | ActivityInbound int
  | LogDrop drop_reason
  | UpsertPairing string
  | SendPairingReply string string string
  | LogPairingReplyFailed string
  | Forward InboundContext

fun is_Forward :: "effect \<Rightarrow> bool" where
  "is_Forward (Forward _) = True"
| "is_Forward _ = False"

fun is_PairingReply :: "effect \<Rightarrow> bool" where
  "is_PairingReply (SendPairingReply _ _ _) = True"
| "is_PairingReply _ = False"

text \<open>
  What the handler has read from an event once it is past its silent returns (the
  source up to the computation of \<open>isGroup\<close>).
\<close>

record Inbound =
  in_message :: FeishuMessage
  in_ids :: SenderIds
  in_chatId :: string
  in_rawBody :: string
  in_timestamp :: int
  in_isGroup :: bool

definition senderType :: "FeishuMessageEventPayload \<Rightarrow> string option" where
  "senderType payload =
     (case snd (snd (unwrapFeishuEvent payload)) of
        None \<Rightarrow> None
      | Some s \<Rightarrow> map_option (\<lambda>t. toLowerCase (trim t)) (sender_type s))"

definition extractInbound ::
  "'st collaborators \<Rightarrow> ResolvedFeishuAccount \<Rightarrow> FeishuMessageEventPayload \<Rightarrow> Inbound option" where
  "extractInbound rt account payload =
     (case fst (snd (unwrapFeishuEvent payload)) of
        None \<Rightarrow> None
      | Some m \<Rightarrow>
          if senderType payload = Some ''app'' then None
          else (case resolveSenderIds payload of
             None \<Rightarrow> None
           | Some ids \<Rightarrow>
               if truthy (botOpenId account) \<noteq> None \<and> senderOpenId ids = botOpenId account
               then None
               else (case truthy (case chat_id m of Some c \<Rightarrow> Some (trim c) | None \<Rightarrow> chatId m) of
                  None \<Rightarrow> None
                | Some cid \<Rightarrow>
                    (case parseMessageContent rt m of
                       None \<Rightarrow> None
                     | Some txt \<Rightarrow>
                         if txt = [] \<or> trim txt = [] then None
                         else Some \<lparr>in_message = m, in_ids = ids, in_chatId = cid,
                                    in_rawBody = trim txt,
                                    in_timestamp = eventTimestamp rt payload m,
                                    in_isGroup =
                                      ((case chat_type m of
                                          Some t \<Rightarrow> Some (toLowerCase (trim t))
                                        | None \<Rightarrow> map_option toLowerCase (chatType m))
                                       \<noteq> Some ''p2p'')\<rparr>))))"

definition storeAllowList :: "'st collaborators \<Rightarrow> string list" where
  "storeAllowList rt = normalizeFeishuAllowlist (Some (readAllowFromStore rt))"

definition baseGroupAllowFrom :: "ResolvedFeishuAccount \<Rightarrow> string list" where
  "baseGroupAllowFrom account =
     (if normalizeFeishuAllowlist (groupAllowFrom (config account)) \<noteq> []
      then normalizeFeishuAllowlist (groupAllowFrom (config account))
      else normalizeFeishuAllowlist (allowFrom (config account)))"

definition effectiveAllowFrom :: "'st collaborators \<Rightarrow> ResolvedFeishuAccount \<Rightarrow> string list" where
  "effectiveAllowFrom rt account =
     filter (\<lambda>e. e \<noteq> [])
       (normalizeFeishuAllowlist (allowFrom (config account)) @ storeAllowList rt)"

definition effectiveGroupAllowFrom :: "'st collaborators \<Rightarrow> ResolvedFeishuAccount \<Rightarrow> string list" where
  "effectiveGroupAllowFrom rt account =
     filter (\<lambda>e. e \<noteq> []) (baseGroupAllowFrom account @ storeAllowList rt)"

definition chatAllowFrom :: "FeishuChatConfig option \<Rightarrow> string list" where
  "chatAllowFrom cc = normalizeFeishuAllowlist (case cc of None \<Rightarrow> None | Some c \<Rightarrow> c_allowFrom c)"

definition resolvedDmPolicy :: "ResolvedFeishuAccount \<Rightarrow> DmPolicy" where
  "resolvedDmPolicy account =
     (case dmPolicy (config account) of None \<Rightarrow> DM_pairing | Some p \<Rightarrow> p)"

definition resolvedGroupPolicy :: "ResolvedFeishuAccount \<Rightarrow> ClawdbotConfig \<Rightarrow> GroupPolicy" where
  "resolvedGroupPolicy account cfg =
     (case groupPolicy (config account) of
        Some p \<Rightarrow> p
      | None \<Rightarrow> (case defaults_groupPolicy cfg of Some p \<Rightarrow> p | None \<Rightarrow> GP_allowlist))"

text \<open>\<open>commandGate\<close>: the pair \<open>(commandAuthorized, shouldBlock)\<close>.\<close>

definition commandGate ::
  "'st collaborators \<Rightarrow> ResolvedFeishuAccount \<Rightarrow> ClawdbotConfig \<Rightarrow> Inbound
     \<Rightarrow> FeishuChatConfig option \<Rightarrow> bool \<times> bool" where
  "commandGate rt account cfg ib cc =
     (let ids = in_ids ib;
          senderAllowedForCommands =
            allowed (resolveFeishuAllowlistMatch
              (Some (if in_isGroup ib
                     then effectiveGroupAllowFrom rt account @ chatAllowFrom cc
                     else effectiveAllowFrom rt account))
              (senderId ids) (senderUserId ids) (Some (senderId ids)))
      in resolveControlCommandGate rt
           (commands_useAccessGroups cfg \<noteq> Some False)
           [((if in_isGroup ib then effectiveGroupAllowFrom rt account
              else effectiveAllowFrom rt account) \<noteq> [],
             senderAllowedForCommands)]
           (shouldHandleTextCommands rt)
           (hasControlCommand rt (in_rawBody ib)))"

text \<open>The group branch: the log line of a drop, and whether the sender is admitted.\<close>

definition groupAdmission ::
  "'st collaborators \<Rightarrow> ResolvedFeishuAccount \<Rightarrow> ClawdbotConfig \<Rightarrow> Inbound
     \<Rightarrow> FeishuChatConfig option \<Rightarrow> effect list \<times> bool" where
  "groupAdmission rt account cfg ib cc =
     (let ids = in_ids ib;
          groupAllow = resolveFeishuGroupAllow (nested rt) (resolvedGroupPolicy account cfg)
                         (Some (effectiveGroupAllowFrom rt account)) (Some (chatAllowFrom cc))
                         (senderId ids) (senderUserId ids) (Some (senderId ids))
      in if \<not> g_allowed groupAllow
         then ([LogDrop (GroupSenderPolicy (resolvedGroupPolicy account cfg))], False)
         else ([], True))"

text \<open>The direct-message branch: its effects, the pairing store, and whether the sender is admitted.\<close>

definition dmAdmission ::
  "'st collaborators \<Rightarrow> ResolvedFeishuAccount \<Rightarrow> 'st \<Rightarrow> Inbound \<Rightarrow> effect list \<times> 'st \<times> bool" where
  "dmAdmission rt account st ib =
     (let ids = in_ids ib; dmp = resolvedDmPolicy account
      in if dmp = DM_disabled then ([LogDrop DmPolicyDisabled], st, False)
         else if dmp \<noteq> DM_open then
           (if allowed (resolveFeishuAllowlistMatch (Some (effectiveAllowFrom rt account))
                          (senderId ids) (senderUserId ids) (Some (senderId ids)))
            then ([], st, True)
            else if dmp = DM_pairing then
              (let r = upsertPairingRequest rt st (senderId ids) (senderUserId ids)
               in ([UpsertPairing (senderId ids)]
                   @ (if snd (fst r)
                      then SendPairingReply (in_chatId ib) (senderId ids) (fst (fst r))
                           # (if sendTextFeishu_throws rt
                              then [LogPairingReplyFailed (senderId ids)] else [])
                      else [])
                   @ [LogDrop (DmSenderPolicy dmp)],
                   snd r, False))
            else ([LogDrop (DmSenderPolicy dmp)], st, False))
         else ([], st, True))"

text \<open>The mention gate: \<open>wasMentioned\<close>, and whether the event is skipped.\<close>

definition mentionStage ::
  "'st collaborators \<Rightarrow> ResolvedFeishuAccount \<Rightarrow> Inbound \<Rightarrow> FeishuChatMatch \<Rightarrow> bool
     \<Rightarrow> bool \<times> bool" where
  "mentionStage rt account ib cm commandAuthorized =
     (let wasMentioned =
            (in_isGroup ib
             \<and> (matchesMentionPatterns rt (in_rawBody ib)
                \<or> wasMentionedByFeishu (in_message ib) (botOpenId account)));
          shouldRequireMention =
            (in_isGroup ib \<and> resolveFeishuRequireMention (chatConfig cm) (wildcardConfig cm))
      in (wasMentioned,
          in_isGroup ib
          \<and> mentionGating rt (in_isGroup ib) shouldRequireMention wasMentioned
               (shouldHandleTextCommands rt) (hasControlCommand rt (in_rawBody ib))
               commandAuthorized))"

definition buildContext ::
  "Inbound \<Rightarrow> FeishuChatConfig option \<Rightarrow> bool \<Rightarrow> bool \<Rightarrow> InboundContext" where
  "buildContext ib cc wasMentioned commandAuthorized =
     \<lparr>ctx_From = (if in_isGroup ib then ''feishu:chat:'' @ in_chatId ib
                   else ''feishu:'' @ senderId (in_ids ib)),
      ctx_To = ''feishu:'' @ in_chatId ib,
      ctx_ChatType = (if in_isGroup ib then ''group'' else ''direct''),
      ctx_RawBody = in_rawBody ib,
      ctx_SenderId = senderId (in_ids ib),
      ctx_Timestamp = in_timestamp ib,
      ctx_WasMentioned = (if in_isGroup ib then Some wasMentioned else None),
      ctx_CommandAuthorized = commandAuthorized,
      ctx_GroupSystemPrompt =
        (if in_isGroup ib
         then truthy (case cc of None \<Rightarrow> None | Some c \<Rightarrow> map_option trim (systemPrompt c))
         else None)\<rparr>"

text \<open>The checks of the handler after its bookkeeping, in the order of the source.\<close>

definition chatDisabled :: "FeishuChatConfig option \<Rightarrow> bool" where
  "chatDisabled cc = (case cc of None \<Rightarrow> False | Some c \<Rightarrow> enabled c = Some False)"

definition admissionStages ::
  "'st collaborators \<Rightarrow> ResolvedFeishuAccount \<Rightarrow> ClawdbotConfig \<Rightarrow> 'st \<Rightarrow> Inbound
     \<Rightarrow> effect list \<times> 'st" where
  "admissionStages rt account cfg st ib =
     (let cm = resolveFeishuChatMatch rt (chats (config account)) (in_chatId ib);
          cc = chatConfig cm
      in if in_isGroup ib \<and> \<not> c_allowed cm then ([LogDrop ChatNotAllowlisted], st)
         else if chatDisabled cc then ([LogDrop ChatDisabled], st)
         else
           let gate = commandGate rt account cfg ib cc
           in if in_isGroup ib \<and> snd gate then ([LogDrop ControlCommandUnauthorized], st)
              else
                let adm = (if in_isGroup ib
                           then (fst (groupAdmission rt account cfg ib cc), st,
                                 snd (groupAdmission rt account cfg ib cc))
                           else dmAdmission rt account st ib)
                in if \<not> snd (snd adm) then (fst adm, fst (snd adm))
                   else
                     let mg = mentionStage rt account ib cm (fst gate)
                     in if in_isGroup ib \<and> snd mg
                        then (fst adm @ [LogDrop NoMention], fst (snd adm))
                        else (fst adm @ [Forward (buildContext ib cc (fst mg) (fst gate))],
                              fst (snd adm)))"

definition handleFeishuMessage ::
  "'st collaborators \<Rightarrow> ResolvedFeishuAccount \<Rightarrow> ClawdbotConfig \<Rightarrow> 'st
     \<Rightarrow> FeishuMessageEventPayload \<Rightarrow> effect list \<times> 'st" where
  "handleFeishuMessage rt account cfg st payload =
     (case extractInbound rt account payload of
        None \<Rightarrow> ([], st)
      | Some ib \<Rightarrow>
          (StatusInbound (in_timestamp ib) # ActivityInbound (in_timestamp ib)
             # fst (admissionStages rt account cfg st ib),
           snd (admissionStages rt account cfg st ib)))"

text \<open>A run of events, each with the collaborators as they are when it arrives.\<close>

fun handleAll ::
  "ResolvedFeishuAccount \<Rightarrow> ClawdbotConfig \<Rightarrow> 'st
     \<Rightarrow> ('st collaborators \<times> FeishuMessageEventPayload) list \<Rightarrow> effect list \<times> 'st" where
  "handleAll account cfg st [] = ([], st)"
| "handleAll account cfg st (ev # evs) =
     (let r = handleFeishuMessage (fst ev) account cfg st (snd ev);
          rs = handleAll account cfg (snd r) evs
      in (fst r @ fst rs, snd rs))"

text \<open>
  Modelled from the spec: the pairing collaborator behind
  \<open>core.channel.pairing.upsertPairingRequest\<close> is not part of the sources. The spec gives
  its interface, \<open>upsertPairingRequest(channel, senderId, meta) -> {code, created}\<close>, and
  says that a request is "idempotent per sender (re-sending the same code, not creating
  duplicates) until approved externally". The store maps a sender to the code of its
  pending request; \<open>gen\<close> is the code a new request gets.
\<close>

type_synonym pairing_store = "(string \<times> string) list"

definition spec_upsertPairingRequest ::
  "(string \<Rightarrow> string) \<Rightarrow> pairing_store \<Rightarrow> string \<Rightarrow> string option
     \<Rightarrow> (string \<times> bool) \<times> pairing_store" where
  "spec_upsertPairingRequest gen st sid uid =
     (case map_of st sid of
        Some code \<Rightarrow> ((code, False), st)
      | None \<Rightarrow> ((gen sid, True), (sid, gen sid) # st))"

section \<open>The connection supervisor: back-off\<close>






section \<open>The connection supervisor: restarts and the idle watchdog\<close>

definition DEFAULT_WS_IDLE_TIMEOUT_SECONDS :: real where
  "DEFAULT_WS_IDLE_TIMEOUT_SECONDS = 20 * 60"

definition resolveWsIdleTimeoutSeconds :: "real option \<Rightarrow> real" where
  "resolveWsIdleTimeoutSeconds configured =
     (case configured of
        Some c \<Rightarrow> if c \<ge> 0 then c else DEFAULT_WS_IDLE_TIMEOUT_SECONDS
      | None \<Rightarrow> DEFAULT_WS_IDLE_TIMEOUT_SECONDS)"

definition resolveWsWatchdogIntervalSeconds :: "real option \<Rightarrow> real \<Rightarrow> real" where
  "resolveWsWatchdogIntervalSeconds configured idleSeconds =
     (if (case configured of Some c \<Rightarrow> c > 0 | None \<Rightarrow> False) then the configured
      else if idleSeconds \<le> 0 then 0
      else max 15 (min 60 (of_int \<lfloor>idleSeconds / 3\<rfloor>)))"

text \<open>
  The variables of \<open>monitorFeishuProvider\<close>. \<open>aborted\<close> is \<open>abortSignal.aborted\<close>;
  \<open>wsClient\<close>, \<open>watchdogTimer\<close> and \<open>restartInFlight\<close> tell whether the variable holds a
  client, a timer, a promise. \<open>bodies\<close> is not a variable of the source: it lists the
  executions of the asynchronous restart function that have begun and have not ended,
  each with the \<open>await\<close> it is suspended at.
\<close>

datatype phase = Closing | Sleeping | Starting

record supervisor =
  stopped :: bool
  aborted :: bool
  wsClient :: bool
  watchdogTimer :: bool
  lastInboundAt :: int
  reconnectAttempts :: int
  restartInFlight :: bool
  restartQueued :: bool
  bodies :: "phase list"

definition initial :: "int \<Rightarrow> supervisor" where
  "initial t0 = \<lparr>stopped = False, aborted = False, wsClient = False, watchdogTimer = False,
      lastInboundAt = t0, reconnectAttempts = 0, restartInFlight = False,
      restartQueued = False, bodies = []\<rparr>"

definition stop :: "supervisor \<Rightarrow> supervisor" where
  "stop s = (if stopped s then s
             else s\<lparr>stopped := True, watchdogTimer := False, wsClient := False\<rparr>)"

text \<open>
  \<open>requestRestart\<close>: the function runs the restart body up to its first \<open>await\<close> (the
  attempt is counted, the client is taken out of \<open>wsClient\<close>) and stores the promise.
\<close>

definition requestRestart :: "supervisor \<Rightarrow> supervisor" where
  "requestRestart s =
     (if stopped s \<or> aborted s then s
      else if restartInFlight s then s\<lparr>restartQueued := True\<rparr>
      else s\<lparr>restartInFlight := True, reconnectAttempts := reconnectAttempts s + 1,
             wsClient := False, bodies := bodies s @ [Closing]\<rparr>)"

text \<open>The \<open>finally\<close> handler of the restart promise.\<close>

definition onFinally :: "supervisor \<Rightarrow> supervisor" where
  "onFinally s =
     (if restartQueued s
      then requestRestart (s\<lparr>restartInFlight := False, restartQueued := False\<rparr>)
      else s\<lparr>restartInFlight := False\<rparr>)"

text \<open>The restart body number \<open>i\<close> ends, and its \<open>finally\<close> handler runs.\<close>

definition complete :: "nat \<Rightarrow> supervisor \<Rightarrow> supervisor" where
  "complete i s = onFinally (s\<lparr>bodies := take i (bodies s) @ drop (Suc i) (bodies s)\<rparr>)"

text \<open>
  An \<open>await\<close> of the restart body returns: \<open>Ok\<close> when the promise resolves (with \<open>true\<close>
  for \<open>startWsClient\<close>), \<open>Failed\<close> when \<open>startWsClient\<close> resolves with \<open>false\<close>, \<open>Threw\<close>
  when the promise rejects. A failure of \<open>client.stop()\<close> is caught and logged; a
  rejected sleep ends the body (by \<open>return\<close> when aborted, through \<open>catch\<close> otherwise).
\<close>

datatype await_result = Ok | Failed | Threw

definition resume :: "nat \<Rightarrow> await_result \<Rightarrow> int \<Rightarrow> supervisor \<Rightarrow> supervisor" where
  "resume i res t s =
     (case bodies s ! i of
        Closing \<Rightarrow> s\<lparr>bodies := (bodies s)[i := Sleeping]\<rparr>
      | Sleeping \<Rightarrow>
          if res = Threw \<or> stopped s \<or> aborted s then complete i s
          else s\<lparr>bodies := (bodies s)[i := Starting], wsClient := True\<rparr>
      | Starting \<Rightarrow>
          (case res of
             Ok \<Rightarrow> complete i (s\<lparr>reconnectAttempts := 0, lastInboundAt := t\<rparr>)
           | Failed \<Rightarrow> complete i (s\<lparr>restartQueued := True\<rparr>)
           | Threw \<Rightarrow> complete i s))"

definition ensureWatchdog :: "real \<Rightarrow> real \<Rightarrow> supervisor \<Rightarrow> supervisor" where
  "ensureWatchdog idleTimeoutSeconds watchdogIntervalSeconds s =
     (if watchdogTimer s then s
      else if idleTimeoutSeconds \<le> 0 \<or> watchdogIntervalSeconds \<le> 0 then s
      else s\<lparr>watchdogTimer := True\<rparr>)"

text \<open>The callback of the watchdog timer, at time \<open>t\<close>: whether it calls \<open>requestRestart\<close>.\<close>

definition tickRequestsRestart :: "real \<Rightarrow> int \<Rightarrow> supervisor \<Rightarrow> bool" where
  "tickRequestsRestart idleTimeoutSeconds t s =
     (if stopped s \<or> aborted s then False
      else if of_int (t - lastInboundAt s) < idleTimeoutSeconds * 1000 then False
      else True)"

definition watchdogTick :: "real \<Rightarrow> int \<Rightarrow> supervisor \<Rightarrow> supervisor" where
  "watchdogTick idleTimeoutSeconds t s =
     (if tickRequestsRestart idleTimeoutSeconds t s then requestRestart s else s)"

text \<open>The handler of \<open>im.message.receive_v1\<close>, as far as the supervisor's variables go.\<close>

definition onInbound :: "int \<Rightarrow> supervisor \<Rightarrow> supervisor" where
  "onInbound t s = (if stopped s \<or> aborted s then s else s\<lparr>lastInboundAt := t\<rparr>)"

text \<open>
  The events of the supervisor. JavaScript runs each of them to its end before the next
  one: the start-up has connected (and calls \<open>ensureWatchdog\<close>), an event arrives, the
  timer ticks, the abort signal fires (its listener calls \<open>stop\<close>), \<open>stop\<close> is called, an
  \<open>await\<close> of a restart body returns, and \<open>requestRestart\<close> is called by any other
  trigger. A tick needs the timer, and \<open>Resume i\<close> needs a restart body number \<open>i\<close>.
\<close>

datatype sup_event =
    Started
  | Inbound int
  | Tick int
  | Abort
  | Stop
  | Resume nat await_result int
  | Trigger

definition fire :: "real \<Rightarrow> real \<Rightarrow> sup_event \<Rightarrow> supervisor \<Rightarrow> supervisor option" where
  "fire idleTimeoutSeconds watchdogIntervalSeconds ev s =
     (case ev of
        Started \<Rightarrow> Some (ensureWatchdog idleTimeoutSeconds watchdogIntervalSeconds s)
      | Inbound t \<Rightarrow> Some (onInbound t s)
      | Tick t \<Rightarrow> if watchdogTimer s then Some (watchdogTick idleTimeoutSeconds t s) else None
      | Abort \<Rightarrow> Some (stop (s\<lparr>aborted := True\<rparr>))
      | Stop \<Rightarrow> Some (stop s)
      | Resume i res t \<Rightarrow> if i < length (bodies s) then Some (resume i res t s) else None
      | Trigger \<Rightarrow> Some (requestRestart s))"

inductive reachable :: "real \<Rightarrow> real \<Rightarrow> supervisor \<Rightarrow> bool"
  for idleTimeoutSeconds :: real and watchdogIntervalSeconds :: real where
  reachable_initial: "reachable idleTimeoutSeconds watchdogIntervalSeconds (initial t0)"
| reachable_fire:
    "reachable idleTimeoutSeconds watchdogIntervalSeconds s \<Longrightarrow>
     fire idleTimeoutSeconds watchdogIntervalSeconds ev s = Some s' \<Longrightarrow>
     reachable idleTimeoutSeconds watchdogIntervalSeconds s'"

section \<open>Predicates of the theorems\<close>


text \<open>
  At most one restart body runs, and \<open>restartInFlight\<close> holds a promise exactly while
  one does.
\<close>

definition single_restart :: "supervisor \<Rightarrow> bool" where
  "single_restart s = (length (bodies s) \<le> 1 \<and> restartInFlight s = (bodies s \<noteq> []))"

text \<open>
  The event is a direct message that reaches the direct-message branch of the handler
  as \<open>ib\<close> (it is past the silent returns, and its chat entry is not disabled), and its
  sender does not match the effective allow-list for direct messages.
\<close>

definition unapprovedDm ::
  "'st collaborators \<Rightarrow> ResolvedFeishuAccount \<Rightarrow> FeishuMessageEventPayload \<Rightarrow> Inbound \<Rightarrow> bool" where
  "unapprovedDm rt account payload ib =
     (extractInbound rt account payload = Some ib
      \<and> \<not> in_isGroup ib
      \<and> \<not> chatDisabled (chatConfig (resolveFeishuChatMatch rt (chats (config account)) (in_chatId ib)))
      \<and> \<not> allowed (resolveFeishuAllowlistMatch (Some (effectiveAllowFrom rt account))
                      (senderId (in_ids ib)) (senderUserId (in_ids ib)) (Some (senderId (in_ids ib)))))"

text \<open>The number of pairing replies among the effects.\<close>

definition pairing_replies :: "effect list \<Rightarrow> nat" where
  "pairing_replies effs = length (filter is_PairingReply effs)"

text \<open>
  Every event of the run is such a direct message of the sender \<open>sid\<close>, and the pairing
  store is the one modelled from the spec.
\<close>

definition unapprovedDmsFrom ::
  "ResolvedFeishuAccount \<Rightarrow> (string \<Rightarrow> string) \<Rightarrow> string
     \<Rightarrow> (pairing_store collaborators \<times> FeishuMessageEventPayload) list \<Rightarrow> bool" where
  "unapprovedDmsFrom account gen sid evs =
     (\<forall>ev \<in> set evs. upsertPairingRequest (fst ev) = spec_upsertPairingRequest gen
        \<and> (\<exists>ib. unapprovedDm (fst ev) account (snd ev) ib \<and> senderId (in_ids ib) = sid))"

section \<open>Fixtures\<close>

text \<open>
  Concrete events, accounts and collaborators, on which the theorems below are run.
  \<open>ex_rt\<close> looks a chat up by its id and falls back to the entry \<open>*\<close>, as the repository's
  test of \<open>resolveFeishuChatMatch\<close> expects; its pairing store is the one modelled from
  the spec, its control-command gate authorises and blocks nothing, and its mention
  gate skips a group message that needs a mention and has none.
\<close>

definition ex_message :: "string \<Rightarrow> string \<Rightarrow> FeishuMessage" where
  "ex_message ctype cid =
     \<lparr>message_id = Some ''om_1'', create_time = Some ''1700000000'', chat_id = Some cid,
      chatId = None, chat_type = Some ctype, chatType = None,
      content = Some ''hello'', mentions = None\<rparr>"

definition ex_payload :: "string \<Rightarrow> string \<Rightarrow> string \<Rightarrow> string \<Rightarrow> FeishuMessageEventPayload" where
  "ex_payload ctype cid oid stype =
     \<lparr>header = None,
      event = Some \<lparr>message = Some (ex_message ctype cid), msg = None,
                    sender = Some \<lparr>sender_id = Some \<lparr>open_id = Some oid, user_id = None\<rparr>,
                                   sender_type = Some stype,
                                   s_open_id = None, s_user_id = None\<rparr>\<rparr>,
      flat = \<lparr>message = None, msg = None, sender = None\<rparr>\<rparr>"

definition ex_rt :: "pairing_store collaborators" where
  "ex_rt =
     \<lparr>json_text = (\<lambda>_. None), now = 1700000000999, readAllowFromStore = [],
      entryMatch = (\<lambda>chs cid. (case map_of chs cid of Some c \<Rightarrow> Some c | None \<Rightarrow> map_of chs ''*'',
                                map_of chs ''*'')),
      nested = sdk_nested, shouldHandleTextCommands = True, hasControlCommand = (\<lambda>_. False),
      resolveControlCommandGate = (\<lambda>_ _ _ _. (True, False)),
      upsertPairingRequest = spec_upsertPairingRequest (\<lambda>sid. ''code-'' @ sid),
      sendTextFeishu_throws = False, matchesMentionPatterns = (\<lambda>_. False),
      mentionGating = (\<lambda>isGroup req was _ _ _. isGroup \<and> req \<and> \<not> was)\<rparr>"

definition ex_account ::
  "DmPolicy option \<Rightarrow> GroupPolicy option \<Rightarrow> string list option \<Rightarrow> string list option
     \<Rightarrow> (string \<times> FeishuChatConfig) list option \<Rightarrow> ResolvedFeishuAccount" where
  "ex_account dm gp allow gallow chs =
     \<lparr>accountId = ''default'', botOpenId = Some ''ou_bot'',
      config = \<lparr>dmPolicy = dm, allowFrom = allow, groupAllowFrom = gallow,
                groupPolicy = gp, chats = chs\<rparr>\<rparr>"

definition ex_cfg :: ClawdbotConfig where
  "ex_cfg = \<lparr>defaults_groupPolicy = None, commands_useAccessGroups = None\<rparr>"

definition ex_chat :: "string list option \<Rightarrow> FeishuChatConfig" where
  "ex_chat allow = \<lparr>requireMention = Some False, enabled = None, c_allowFrom = allow,
                     systemPrompt = None\<rparr>"

definition ex_inbound :: "string \<Rightarrow> string \<Rightarrow> string \<Rightarrow> Inbound" where
  "ex_inbound ctype cid oid =
     \<lparr>in_message = ex_message ctype cid,
      in_ids = \<lparr>senderId = oid, senderOpenId = Some oid, senderUserId = None\<rparr>,
      in_chatId = cid, in_rawBody = ''hello'', in_timestamp = 1700000000000,
      in_isGroup = (ctype \<noteq> ''p2p'')\<rparr>"

text \<open>An account under the default policy \<open>pairing\<close> whose chat entry \<open>oc_dm\<close> is disabled.\<close>

definition ex_account_dm_disabled :: ResolvedFeishuAccount where
  "ex_account_dm_disabled =
     ex_account None None None None
       (Some [(''oc_dm'', \<lparr>requireMention = None, enabled = Some False, c_allowFrom = None,
                            systemPrompt = None\<rparr>)])"


section \<open>The repository's tests of the policy helpers\<close>

lemma test_normalizes_allowlist_entries:
  "normalizeFeishuAllowlist (Some [''Feishu:User:OU_ABC'', '' lark:oc_123 ''])
     = [''ou_abc'', ''oc_123'']"
  by code_simp

lemma test_matches_allowlist:
  "allowed (resolveFeishuAllowlistMatch (Some [''ou_abc'']) ''ou_abc'' None None)"
  "allowed (resolveFeishuAllowlistMatch (Some [''ou_abc'']) ''ou_other'' (Some ''ou_abc'') None)"
  "allowed (resolveFeishuAllowlistMatch (Some [''*'']) ''ou_any'' None None)"
  by code_simp+

lemma test_nested_group_allowlists:
  "g_allowed (resolveFeishuGroupAllow sdk_nested GP_allowlist (Some [''ou_abc''])
       (Some [''ou_abc'']) ''ou_abc'' None None)"
  "\<not> g_allowed (resolveFeishuGroupAllow sdk_nested GP_allowlist (Some [''ou_abc''])
       (Some [''ou_abc'']) ''ou_other'' None None)"
  by code_simp+

lemma test_chat_allowlist_matches:
  "c_allowed (resolveFeishuChatMatch ex_rt
      (Some [(''oc_allowed'', ex_chat None), (''*'', ex_chat None)]) ''oc_allowed'')"
  "c_allowed (resolveFeishuChatMatch ex_rt
      (Some [(''oc_allowed'', ex_chat None), (''*'', ex_chat None)]) ''oc_other'')"
  "\<not> c_allowed (resolveFeishuChatMatch ex_rt (Some [(''oc_allowed'', ex_chat None)]) ''oc_other'')"
  by code_simp+

lemma sdk_nested_tests:
  "sdk_nested True True False False"
  "\<not> sdk_nested True False False False"
  "sdk_nested True True True True"
  "\<not> sdk_nested True False True False"
  by (simp_all add: sdk_nested_def)

section \<open>Normalisation of allow-list entries\<close>















lemma trim_le: "length (trim s) \<le> length s"
proof -
  have "length (trim s) \<le> length (dropWhile is_space s)"
    using length_dropWhile_le [of is_space "rev (dropWhile is_space s)"]
    by (simp add: trim_def)
  also have "\<dots> \<le> length s" by (rule length_dropWhile_le)
  finally show ?thesis .
qed








section \<open>Group admission\<close>

lemma inner_match_any_helper:
  "normalizeFeishuAllowlist inner \<noteq> [] \<Longrightarrow>
   g_allowed (resolveFeishuGroupAllow nd GP_allowlist outer inner sid uid nm)
     = nd True (normalizeFeishuAllowlist outer = []
                \<or> allowed (resolveFeishuAllowlistMatch outer sid uid nm))
          True (allowed (resolveFeishuAllowlistMatch inner sid uid nm))"
  by (auto simp: resolveFeishuGroupAllow_def Let_def)

text \<open>
  C2. As stated, the claim says that under the group policy \<open>allowlist\<close> a sender who
  matches the configured room-level (inner) list is allowed whether or not the sender
  matches the outer list. With the nested decision of the plugin SDK, a sender who
  matches the inner list and not the configured outer list is rejected.
\<close>

theorem inner_match_rejected_by_outer:
  "normalizeFeishuAllowlist (Some [''ou_guest'']) \<noteq> []
   \<and> allowed (resolveFeishuAllowlistMatch (Some [''ou_guest'']) ''ou_guest'' None None)
   \<and> \<not> g_allowed (resolveFeishuGroupAllow sdk_nested GP_allowlist
          (Some [''ou_owner'']) (Some [''ou_guest'']) ''ou_guest'' None None)"
  by code_simp

text \<open>
  C2, amended. Under the group policy \<open>allowlist\<close>: when neither list is configured the
  sender is not allowed, whatever the nested decision of the SDK is; and with the
  nested decision of the SDK, a sender who matches the configured inner list is
  allowed exactly when the outer list is not configured or the sender matches it too.
\<close>

theorem nested_group_admission:
  "(normalizeFeishuAllowlist outer = [] \<and> normalizeFeishuAllowlist inner = [] \<longrightarrow>
       \<not> g_allowed (resolveFeishuGroupAllow nd GP_allowlist outer inner sid uid nm))
   \<and> (normalizeFeishuAllowlist inner \<noteq> []
        \<and> allowed (resolveFeishuAllowlistMatch inner sid uid nm) \<longrightarrow>
       g_allowed (resolveFeishuGroupAllow sdk_nested GP_allowlist outer inner sid uid nm)
         = (normalizeFeishuAllowlist outer = []
            \<or> allowed (resolveFeishuAllowlistMatch outer sid uid nm)))"
  by (auto simp: resolveFeishuGroupAllow_def sdk_nested_def Let_def)

theorem nested_group_admission_witness:
  "\<not> g_allowed (resolveFeishuGroupAllow sdk_nested GP_allowlist None (Some [])
        ''ou_guest'' None None)
   \<and> g_allowed (resolveFeishuGroupAllow sdk_nested GP_allowlist
        (Some [''ou_guest'', ''ou_owner'']) (Some [''ou_guest'']) ''ou_guest'' None None)"
proof -
  have a: "normalizeFeishuAllowlist None = [] \<and> normalizeFeishuAllowlist (Some []) = []"
    by code_simp
  have b: "normalizeFeishuAllowlist (Some [''ou_guest'']) \<noteq> []
           \<and> allowed (resolveFeishuAllowlistMatch (Some [''ou_guest'']) ''ou_guest'' None None)"
    by code_simp
  have c: "allowed (resolveFeishuAllowlistMatch (Some [''ou_guest'', ''ou_owner''])
             ''ou_guest'' None None)"
    by code_simp
  show ?thesis
    using a b c
      nested_group_admission [of None "Some []" sdk_nested "''ou_guest''" None None]
      nested_group_admission [of "Some [''ou_guest'', ''ou_owner'']" "Some [''ou_guest'']"
        sdk_nested "''ou_guest''" None None]
    by blast
qed

lemma group_disabled_stage:
  "resolvedGroupPolicy account cfg = GP_disabled \<Longrightarrow> in_isGroup ib \<Longrightarrow>
     list_all (\<lambda>e. \<not> is_Forward e) (fst (admissionStages rt account cfg st ib))"
  by (simp add: admissionStages_def groupAdmission_def resolveFeishuGroupAllow_def Let_def)

lemma group_open_stage:
  "resolvedGroupPolicy account cfg = GP_open \<Longrightarrow> groupAdmission rt account cfg ib cc = ([], True)"
  by (simp add: groupAdmission_def resolveFeishuGroupAllow_def Let_def)

text \<open>
  C3. Under the group policy \<open>disabled\<close>, \<open>resolveFeishuGroupAllow\<close> allows no sender,
  and the handler hands no group event of an account with that policy to the agent
  runtime, whatever the allow-lists, the mentions and the collaborators are. Under
  the group policy \<open>open\<close>, \<open>resolveFeishuGroupAllow\<close> allows every sender and the
  group branch of the handler admits the event.
\<close>

theorem group_policy_disabled_open:
  "\<not> g_allowed (resolveFeishuGroupAllow nd GP_disabled outer inner sid uid nm)
   \<and> g_allowed (resolveFeishuGroupAllow nd GP_open outer inner sid uid nm)
   \<and> (groupPolicy (config account) = Some GP_disabled
        \<and> (case extractInbound rt account payload of None \<Rightarrow> True | Some ib \<Rightarrow> in_isGroup ib)
      \<longrightarrow> list_all (\<lambda>e. \<not> is_Forward e) (fst (handleFeishuMessage rt account cfg st payload)))
   \<and> (groupPolicy (config account) = Some GP_open
      \<longrightarrow> groupAdmission rt account cfg ib cc = ([], True))"
proof (intro conjI impI)
  assume a: "groupPolicy (config account) = Some GP_disabled
        \<and> (case extractInbound rt account payload of None \<Rightarrow> True | Some ib \<Rightarrow> in_isGroup ib)"
  then have p: "resolvedGroupPolicy account cfg = GP_disabled"
    by (simp add: resolvedGroupPolicy_def)
  show "list_all (\<lambda>e. \<not> is_Forward e) (fst (handleFeishuMessage rt account cfg st payload))"
  proof (cases "extractInbound rt account payload")
    case None
    then show ?thesis by (simp add: handleFeishuMessage_def)
  next
    case (Some ib)
    with a have "in_isGroup ib" by simp
    from group_disabled_stage [OF p this] Some show ?thesis
      by (simp add: handleFeishuMessage_def)
  qed
next
  assume "groupPolicy (config account) = Some GP_open"
  then have "resolvedGroupPolicy account cfg = GP_open" by (simp add: resolvedGroupPolicy_def)
  then show "groupAdmission rt account cfg ib cc = ([], True)" by (rule group_open_stage)
qed (simp_all add: resolveFeishuGroupAllow_def)

theorem group_policy_disabled_open_witness:
  "list_all (\<lambda>e. \<not> is_Forward e)
     (fst (handleFeishuMessage ex_rt
        (ex_account None (Some GP_disabled) (Some [''*'']) (Some [''*'']) None) ex_cfg []
        (ex_payload ''group'' ''oc_room'' ''ou_alice'' ''user'')))
   \<and> groupAdmission ex_rt (ex_account None (Some GP_open) None None None) ex_cfg
        (ex_inbound ''group'' ''oc_room'' ''ou_alice'') None = ([], True)"
proof -
  let ?a = "ex_account None (Some GP_disabled) (Some [''*'']) (Some [''*'']) None"
  let ?p = "ex_payload ''group'' ''oc_room'' ''ou_alice'' ''user''"
  have g: "groupPolicy (config ?a) = Some GP_disabled" by (simp add: ex_account_def)
  have x: "extractInbound ex_rt ?a ?p = Some (ex_inbound ''group'' ''oc_room'' ''ou_alice'')"
    by code_simp
  have i: "in_isGroup (ex_inbound ''group'' ''oc_room'' ''ou_alice'')" by code_simp
  have o: "groupPolicy (config (ex_account None (Some GP_open) None None None)) = Some GP_open"
    by (simp add: ex_account_def)
  show ?thesis
    using g x i o
      group_policy_disabled_open [of sdk_nested None None "''ou_alice''" None None ?a ex_rt ?p
        ex_cfg "[]"]
      group_policy_disabled_open [of sdk_nested None None "''ou_alice''" None None
        "ex_account None (Some GP_open) None None None" ex_rt ?p ex_cfg "[]"
        "ex_inbound ''group'' ''oc_room'' ''ou_alice''" None]
    by simp
qed

section \<open>Back-off\<close>




section \<open>Time stamps\<close>



section \<open>The supervisor\<close>

lemma single_requestRestart: "single_restart s \<Longrightarrow> single_restart (requestRestart s)"
  by (auto simp: single_restart_def requestRestart_def)

lemma single_onFinally: "bodies s = [] \<Longrightarrow> single_restart (onFinally s)"
  by (auto simp: single_restart_def onFinally_def requestRestart_def)

lemma single_complete:
  "single_restart s \<Longrightarrow> i < length (bodies s) \<Longrightarrow> single_restart (complete i s)"
proof -
  assume a: "single_restart s" and b: "i < length (bodies s)"
  then have "take i (bodies s) @ drop (Suc i) (bodies s) = []"
    by (auto simp: single_restart_def)
  then show ?thesis by (simp add: complete_def single_onFinally)
qed

lemma single_update:
  "single_restart s \<Longrightarrow> single_restart (s\<lparr>reconnectAttempts := a, lastInboundAt := b\<rparr>)"
  "single_restart s \<Longrightarrow> single_restart (s\<lparr>restartQueued := q\<rparr>)"
  by (simp_all add: single_restart_def)

lemma single_resume:
  "single_restart s \<Longrightarrow> i < length (bodies s) \<Longrightarrow> single_restart (resume i res t s)"
  unfolding resume_def
  by (cases "bodies s ! i"; cases res)
     (auto simp: single_complete single_update intro!: single_complete,
      auto simp: single_restart_def)

lemma single_fire:
  "single_restart s \<Longrightarrow> fire idle ival ev s = Some s' \<Longrightarrow> single_restart s'"
  by (cases ev)
     (auto simp: fire_def single_resume single_requestRestart watchdogTick_def
           split: if_splits,
      auto simp: single_restart_def ensureWatchdog_def onInbound_def stop_def)

lemma reachable_single: "reachable idle ival s \<Longrightarrow> single_restart s"
proof (induction rule: reachable.induct)
  case (reachable_initial t0)
  show ?case by (simp add: single_restart_def initial_def)
next
  case (reachable_fire s ev s')
  then show ?case by (blast intro: single_fire)
qed

lemma complete_bodies:
  "single_restart s \<Longrightarrow> i < length (bodies s) \<Longrightarrow>
     bodies (complete i s)
       = (if restartQueued s \<and> \<not> stopped s \<and> \<not> aborted s then [Closing] else [])
     \<and> \<not> restartQueued (complete i s)"
proof -
  assume a: "single_restart s" and b: "i < length (bodies s)"
  then have "take i (bodies s) @ drop (Suc i) (bodies s) = []"
    by (auto simp: single_restart_def)
  then show ?thesis by (simp add: complete_def onFinally_def requestRestart_def)
qed






text \<open>
  C4. In every reachable state of the supervisor at most one restart body runs, and
  \<open>restartInFlight\<close> holds a promise exactly while one does. A call of \<open>requestRestart\<close>
  while a restart is in flight only sets \<open>restartQueued\<close>: it starts no second body.
  When the body ends, its \<open>finally\<close> handler clears the flag and, if the flag was set
  and the supervisor is neither stopped nor aborted, starts the next restart; a restart
  whose \<open>startWsClient\<close> returns \<open>false\<close> sets the flag itself and so loops. The events
  of the supervisor come in any order and number, ticks and other triggers alike.
\<close>

theorem single_restart_in_flight:
  "reachable idle ival s \<Longrightarrow>
     length (bodies s) \<le> 1
   \<and> restartInFlight s = (bodies s \<noteq> [])
   \<and> (restartInFlight s \<and> \<not> stopped s \<and> \<not> aborted s \<longrightarrow>
        requestRestart s = s\<lparr>restartQueued := True\<rparr>)
   \<and> (i < length (bodies s) \<longrightarrow>
        bodies (complete i s)
          = (if restartQueued s \<and> \<not> stopped s \<and> \<not> aborted s then [Closing] else [])
        \<and> \<not> restartQueued (complete i s))
   \<and> (i < length (bodies s) \<and> bodies s ! i = Starting \<and> \<not> stopped s \<and> \<not> aborted s \<longrightarrow>
        bodies (resume i Failed t s) = [Closing])"
proof -
  assume r: "reachable idle ival s"
  have s: "single_restart s" by (rule reachable_single [OF r])
  have q: "single_restart (s\<lparr>restartQueued := True\<rparr>)" by (rule single_update(2) [OF s])
  have "i < length (bodies s) \<and> bodies s ! i = Starting \<and> \<not> stopped s \<and> \<not> aborted s \<longrightarrow>
        bodies (resume i Failed t s) = [Closing]"
    using complete_bodies [OF q, of i] by (simp add: resume_def)
  moreover have "i < length (bodies s) \<longrightarrow>
        bodies (complete i s)
          = (if restartQueued s \<and> \<not> stopped s \<and> \<not> aborted s then [Closing] else [])
        \<and> \<not> restartQueued (complete i s)"
    using complete_bodies [OF s, of i] by blast
  moreover have "restartInFlight s \<and> \<not> stopped s \<and> \<not> aborted s \<longrightarrow>
        requestRestart s = s\<lparr>restartQueued := True\<rparr>"
    by (simp add: requestRestart_def)
  ultimately show ?thesis using s by (simp add: single_restart_def)
qed

theorem single_restart_in_flight_witness:
  "length (bodies (requestRestart (requestRestart (initial 0)))) \<le> 1
   \<and> restartQueued (requestRestart (requestRestart (initial 0)))
   \<and> bodies (complete 0 (requestRestart (requestRestart (initial 0)))) = [Closing]"
proof -
  have "reachable 1200 60 (requestRestart (initial 0))"
    by (rule reachable_fire [where ev = Trigger, OF reachable_initial]) (simp add: fire_def)
  then have r: "reachable 1200 60 (requestRestart (requestRestart (initial 0)))"
    by (rule reachable_fire [where ev = Trigger]) (simp add: fire_def)
  have v: "requestRestart (requestRestart (initial 0))
      = \<lparr>stopped = False, aborted = False, wsClient = False, watchdogTimer = False,
         lastInboundAt = 0, reconnectAttempts = 1, restartInFlight = True,
         restartQueued = True, bodies = [Closing]\<rparr>"
    by (simp add: requestRestart_def initial_def)
  show ?thesis
    using single_restart_in_flight [OF r, of 0 0] by (simp add: v)
qed



section \<open>The bot's own messages\<close>

text \<open>
  C9. An event whose sender type is \<open>app\<close>, or whose sender \<open>open_id\<close> is the configured
  \<open>botOpenId\<close> of the account, leaves the handler without any effect: no status update,
  no activity record, no log line, no pairing request, no reply, nothing handed to the
  agent runtime, and the pairing store as it was.
\<close>

theorem own_messages_discarded:
  "senderType payload = Some ''app''
   \<or> (\<exists>b. botOpenId account = Some b \<and> b \<noteq> []
          \<and> map_option trim (fst (raw_sender_ids payload)) = Some b)
   \<Longrightarrow> handleFeishuMessage rt account cfg st payload = ([], st)"
  by (auto simp: handleFeishuMessage_def extractInbound_def resolveSenderIds_def truthy_def Let_def
           split: option.splits)

theorem own_messages_discarded_witness:
  "handleFeishuMessage ex_rt (ex_account None None None None None) ex_cfg []
     (ex_payload ''p2p'' ''oc_dm'' ''ou_bot'' ''user'') = ([], [])
   \<and> handleFeishuMessage ex_rt (ex_account None None None None None) ex_cfg []
     (ex_payload ''p2p'' ''oc_dm'' ''ou_other'' ''App'') = ([], [])"
proof -
  have a: "senderType (ex_payload ''p2p'' ''oc_dm'' ''ou_other'' ''App'') = Some ''app''"
    by code_simp
  have b: "botOpenId (ex_account None None None None None) = Some ''ou_bot''"
    by (simp add: ex_account_def)
  have c: "map_option trim (fst (raw_sender_ids (ex_payload ''p2p'' ''oc_dm'' ''ou_bot'' ''user'')))
             = Some ''ou_bot''"
    by code_simp
  have d: "\<exists>b. botOpenId (ex_account None None None None None) = Some b \<and> b \<noteq> []
          \<and> map_option trim (fst (raw_sender_ids (ex_payload ''p2p'' ''oc_dm'' ''ou_bot'' ''user''))) = Some b"
    using b c by simp
  show ?thesis
  proof (intro conjI)
    show "handleFeishuMessage ex_rt (ex_account None None None None None) ex_cfg []
       (ex_payload ''p2p'' ''oc_dm'' ''ou_bot'' ''user'') = ([], [])"
      by (rule own_messages_discarded [OF disjI2 [OF d]])
    show "handleFeishuMessage ex_rt (ex_account None None None None None) ex_cfg []
       (ex_payload ''p2p'' ''oc_dm'' ''ou_other'' ''App'') = ([], [])"
      by (rule own_messages_discarded [OF disjI1 [OF a]])
  qed
qed

section \<open>Pairing\<close>

lemma pairing_replies_append [simp]:
  "pairing_replies (xs @ ys) = pairing_replies xs + pairing_replies ys"
  by (simp add: pairing_replies_def)

lemma pairing_dm_effects:
  assumes p: "resolvedDmPolicy account = DM_pairing"
    and u: "unapprovedDm rt account payload ib"
  shows "handleFeishuMessage rt account cfg st payload =
     (let r = upsertPairingRequest rt st (senderId (in_ids ib)) (senderUserId (in_ids ib))
      in ([StatusInbound (in_timestamp ib), ActivityInbound (in_timestamp ib),
           UpsertPairing (senderId (in_ids ib))]
          @ (if snd (fst r)
             then SendPairingReply (in_chatId ib) (senderId (in_ids ib)) (fst (fst r))
                  # (if sendTextFeishu_throws rt
                     then [LogPairingReplyFailed (senderId (in_ids ib))] else [])
             else [])
          @ [LogDrop (DmSenderPolicy DM_pairing)],
          snd r))"
proof -
  have d: "dmAdmission rt account st ib =
     (let r = upsertPairingRequest rt st (senderId (in_ids ib)) (senderUserId (in_ids ib))
      in ([UpsertPairing (senderId (in_ids ib))]
          @ (if snd (fst r)
             then SendPairingReply (in_chatId ib) (senderId (in_ids ib)) (fst (fst r))
                  # (if sendTextFeishu_throws rt
                     then [LogPairingReplyFailed (senderId (in_ids ib))] else [])
             else [])
          @ [LogDrop (DmSenderPolicy DM_pairing)],
          snd r, False))"
    using p u by (simp add: dmAdmission_def unapprovedDm_def Let_def)
  have a: "admissionStages rt account cfg st ib
             = (fst (dmAdmission rt account st ib), fst (snd (dmAdmission rt account st ib)))"
    using u by (simp add: admissionStages_def unapprovedDm_def Let_def d)
  show ?thesis
    using u by (simp add: handleFeishuMessage_def unapprovedDm_def a) (simp add: d Let_def)
qed

lemma pairing_dm_spec_store:
  assumes p: "resolvedDmPolicy account = DM_pairing"
    and u: "unapprovedDm rt account payload ib"
    and g: "upsertPairingRequest rt = spec_upsertPairingRequest gen"
  shows "pairing_replies (fst (handleFeishuMessage rt account cfg st payload))
           = (if map_of st (senderId (in_ids ib)) = None then 1 else 0)
         \<and> map_of (snd (handleFeishuMessage rt account cfg st payload)) (senderId (in_ids ib)) \<noteq> None
         \<and> list_all (\<lambda>e. \<not> is_Forward e) (fst (handleFeishuMessage rt account cfg st payload))"
  by (cases "map_of st (senderId (in_ids ib))")
     (simp_all add: pairing_dm_effects [OF p u] g spec_upsertPairingRequest_def Let_def
        pairing_replies_def)

lemma pairing_run_pending:
  "resolvedDmPolicy account = DM_pairing \<Longrightarrow> unapprovedDmsFrom account gen sid evs \<Longrightarrow>
   map_of st sid \<noteq> None \<Longrightarrow>
     pairing_replies (fst (handleAll account cfg st evs)) = 0
     \<and> list_all (\<lambda>e. \<not> is_Forward e) (fst (handleAll account cfg st evs))"
proof (induction evs arbitrary: st)
  case Nil
  show ?case by (simp add: pairing_replies_def)
next
  case (Cons ev evs)
  from Cons.prems(2) obtain ib where
    g: "upsertPairingRequest (fst ev) = spec_upsertPairingRequest gen"
    and u: "unapprovedDm (fst ev) account (snd ev) ib" and i: "senderId (in_ids ib) = sid"
    by (auto simp: unapprovedDmsFrom_def)
  have rest: "unapprovedDmsFrom account gen sid evs"
    using Cons.prems(2) by (simp add: unapprovedDmsFrom_def)
  note one = pairing_dm_spec_store [OF Cons.prems(1) u g, of cfg st, unfolded i]
  have "map_of (snd (handleFeishuMessage (fst ev) account cfg st (snd ev))) sid \<noteq> None"
    using one by simp
  from Cons.IH [OF Cons.prems(1) rest this] one Cons.prems(3)
  show ?case by (simp add: Let_def)
qed

lemma ex_dm_unapproved:
  "unapprovedDm ex_rt (ex_account None None None None None)
     (ex_payload ''p2p'' ''oc_dm'' ''ou_alice'' ''user'') (ex_inbound ''p2p'' ''oc_dm'' ''ou_alice'')"
  by code_simp

lemma second_message_no_reply:
  "fst (handleAll (ex_account None None None None None) ex_cfg []
        [(ex_rt, ex_payload ''p2p'' ''oc_dm'' ''ou_alice'' ''user''),
         (ex_rt, ex_payload ''p2p'' ''oc_dm'' ''ou_alice'' ''user'')])
   = [StatusInbound 1700000000000, ActivityInbound 1700000000000, UpsertPairing ''ou_alice'',
      SendPairingReply ''oc_dm'' ''ou_alice'' ''code-ou_alice'',
      LogDrop (DmSenderPolicy DM_pairing),
      StatusInbound 1700000000000, ActivityInbound 1700000000000, UpsertPairing ''ou_alice'',
      LogDrop (DmSenderPolicy DM_pairing)]"
  by code_simp

text \<open>
  C1. As stated, the claim says that under the policy \<open>pairing\<close> the handler creates or
  fetches a pairing request for every direct message whose sender does not match the
  effective allow-list. The handler drops an event whose chat entry is disabled
  before it looks at the sender, in direct chats as in groups: such a direct message
  of an unknown sender is logged as dropped, and no pairing request is made.
\<close>

theorem disabled_chat_dm_no_pairing:
  "resolvedDmPolicy ex_account_dm_disabled = DM_pairing
   \<and> \<not> allowed (resolveFeishuAllowlistMatch
            (Some (effectiveAllowFrom ex_rt ex_account_dm_disabled))
            ''ou_alice'' None (Some ''ou_alice''))
   \<and> handleFeishuMessage ex_rt ex_account_dm_disabled ex_cfg []
        (ex_payload ''p2p'' ''oc_dm'' ''ou_alice'' ''user'')
       = ([StatusInbound 1700000000000, ActivityInbound 1700000000000, LogDrop ChatDisabled], [])"
  by code_simp

text \<open>
  C1, amended. Under the policy \<open>pairing\<close>, for a direct message that is past the silent
  returns of the handler, whose chat entry is not disabled and whose sender does not
  match the effective allow-list, the handler calls \<open>upsertPairingRequest\<close> for the sender and keeps the store it returns,
  sends one pairing reply if the request was newly created and none otherwise, and
  hands nothing to the agent runtime; this holds for every collaborator. With the
  pairing store modelled from the spec, a run of one or more such messages of a sender
  without a pending request sends exactly one pairing reply and hands nothing to the
  agent runtime.
\<close>

theorem pairing_dm:
  assumes p: "resolvedDmPolicy account = DM_pairing"
  shows "(unapprovedDm rt account payload ib \<longrightarrow>
            UpsertPairing (senderId (in_ids ib))
              \<in> set (fst (handleFeishuMessage rt account cfg st payload))
          \<and> snd (handleFeishuMessage rt account cfg st payload)
              = snd (upsertPairingRequest rt st (senderId (in_ids ib)) (senderUserId (in_ids ib)))
          \<and> pairing_replies (fst (handleFeishuMessage rt account cfg st payload))
              = (if snd (fst (upsertPairingRequest rt st (senderId (in_ids ib))
                                (senderUserId (in_ids ib)))) then 1 else 0)
          \<and> list_all (\<lambda>e. \<not> is_Forward e) (fst (handleFeishuMessage rt account cfg st payload)))
       \<and> (evs \<noteq> [] \<and> unapprovedDmsFrom account gen sid evs \<and> map_of st0 sid = None \<longrightarrow>
            pairing_replies (fst (handleAll account cfg st0 evs)) = 1
          \<and> list_all (\<lambda>e. \<not> is_Forward e) (fst (handleAll account cfg st0 evs)))"
proof (intro conjI impI)
  assume u: "unapprovedDm rt account payload ib"
  note e = pairing_dm_effects [OF p u, of cfg st]
  show "UpsertPairing (senderId (in_ids ib))
              \<in> set (fst (handleFeishuMessage rt account cfg st payload))"
    by (simp add: e Let_def)
  show "snd (handleFeishuMessage rt account cfg st payload)
              = snd (upsertPairingRequest rt st (senderId (in_ids ib)) (senderUserId (in_ids ib)))"
    by (simp add: e Let_def)
  show "pairing_replies (fst (handleFeishuMessage rt account cfg st payload))
              = (if snd (fst (upsertPairingRequest rt st (senderId (in_ids ib))
                                (senderUserId (in_ids ib)))) then 1 else 0)"
    by (simp add: e Let_def pairing_replies_def)
  show "list_all (\<lambda>e. \<not> is_Forward e) (fst (handleFeishuMessage rt account cfg st payload))"
    by (simp add: e Let_def)
next
  assume a: "evs \<noteq> [] \<and> unapprovedDmsFrom account gen sid evs \<and> map_of st0 sid = None"
  then obtain ev rest where evs: "evs = ev # rest" by (cases evs) auto
  from a evs obtain ib where
    g: "upsertPairingRequest (fst ev) = spec_upsertPairingRequest gen"
    and u: "unapprovedDm (fst ev) account (snd ev) ib" and i: "senderId (in_ids ib) = sid"
    by (auto simp: unapprovedDmsFrom_def)
  have r: "unapprovedDmsFrom account gen sid rest"
    using a evs by (simp add: unapprovedDmsFrom_def)
  note one = pairing_dm_spec_store [OF p u g, of cfg st0, unfolded i]
  have m: "map_of (snd (handleFeishuMessage (fst ev) account cfg st0 (snd ev))) sid \<noteq> None"
    using one by simp
  note tl = pairing_run_pending [OF p r m, of cfg]
  show "pairing_replies (fst (handleAll account cfg st0 evs)) = 1"
    using one tl a by (simp add: evs Let_def)
  show "list_all (\<lambda>e. \<not> is_Forward e) (fst (handleAll account cfg st0 evs))"
    using one tl by (simp add: evs Let_def)
qed

theorem pairing_dm_witness:
  "UpsertPairing ''ou_alice''
     \<in> set (fst (handleFeishuMessage ex_rt (ex_account None None None None None) ex_cfg []
                   (ex_payload ''p2p'' ''oc_dm'' ''ou_alice'' ''user'')))
   \<and> pairing_replies (fst (handleAll (ex_account None None None None None) ex_cfg []
        [(ex_rt, ex_payload ''p2p'' ''oc_dm'' ''ou_alice'' ''user''),
         (ex_rt, ex_payload ''p2p'' ''oc_dm'' ''ou_alice'' ''user''),
         (ex_rt, ex_payload ''p2p'' ''oc_dm'' ''ou_alice'' ''user'')])) = 1"
proof -
  let ?a = "ex_account None None None None None"
  let ?p = "ex_payload ''p2p'' ''oc_dm'' ''ou_alice'' ''user''"
  have p: "resolvedDmPolicy ?a = DM_pairing" by code_simp
  have i: "senderId (in_ids (ex_inbound ''p2p'' ''oc_dm'' ''ou_alice'')) = ''ou_alice''"
    by (simp add: ex_inbound_def)
  have g: "upsertPairingRequest ex_rt = spec_upsertPairingRequest (\<lambda>sid. ''code-'' @ sid)"
    by (simp add: ex_rt_def)
  have r: "unapprovedDmsFrom ?a (\<lambda>sid. ''code-'' @ sid) ''ou_alice'' [(ex_rt, ?p), (ex_rt, ?p), (ex_rt, ?p)]"
    using ex_dm_unapproved i g by (auto simp: unapprovedDmsFrom_def)
  have m: "map_of ([] :: pairing_store) ''ou_alice'' = None" by simp
  have n: "[(ex_rt, ?p), (ex_rt, ?p), (ex_rt, ?p)] \<noteq> []" by simp
  show ?thesis
    using pairing_dm [OF p, of ex_rt ?p "ex_inbound ''p2p'' ''oc_dm'' ''ou_alice''" ex_cfg "[]"
        "[(ex_rt, ?p), (ex_rt, ?p), (ex_rt, ?p)]" "\<lambda>sid. ''code-'' @ sid" "''ou_alice''" "[]",
        unfolded i]
      ex_dm_unapproved r m n
    by blast
qed

section \<open>The allow-list for direct messages as the group allow-list\<close>



lemma room_list_gate_any_helper:
  "\<not> nd True True True False \<Longrightarrow>
   \<not> g_allowed (resolveFeishuGroupAllow nd GP_allowlist (Some [''ou_alice''])
         (Some [''ou_bob'']) ''ou_alice'' None (Some ''ou_alice''))"
proof -
  assume h: "\<not> nd True True True False"
  have i: "normalizeFeishuAllowlist (Some [''ou_bob'']) \<noteq> []" by code_simp
  have o: "normalizeFeishuAllowlist (Some [''ou_alice'']) \<noteq> []" by code_simp
  have a: "allowed (resolveFeishuAllowlistMatch (Some [''ou_alice'']) ''ou_alice'' None
             (Some ''ou_alice''))" by code_simp
  have b: "\<not> allowed (resolveFeishuAllowlistMatch (Some [''ou_bob'']) ''ou_alice'' None
             (Some ''ou_alice''))" by code_simp
  show ?thesis using h o a b by (simp add: inner_match_any_helper [OF i])
qed




end
